theory Spec2Isabelle
  imports Main
begin

section \<open>JavaScript values that cross the API boundary\<close>

text \<open>
  Everything the controller reads from the network is the result of \<open>response.json()\<close>, and
  everything it sends is an object literal passed through \<open>JSON.stringify\<close>. Both are values
  of the JSON data model. Numbers are restricted to integers (the API's volume is a
  percentage); an object is the association list of its own properties, whose names are
  distinct.
\<close>

datatype json =
    JNull
  | JBool bool
  | JNum int
  | JStr string
  | JArr "json list"
  | JObj "(string \<times> json) list"

text \<open>JavaScript truthiness, as tested by \<open>if (response)\<close>, \<open>||\<close>, \<open>&&\<close> and \<open>? :\<close>.\<close>

fun truthy :: "json \<Rightarrow> bool" where
  "truthy JNull = False"
| "truthy (JBool b) = b"
| "truthy (JNum n) = (n \<noteq> 0)"
| "truthy (JStr s) = (s \<noteq> [])"
| "truthy (JArr xs) = True"
| "truthy (JObj kvs) = True"

text \<open>
  Reading a property \<open>v.name\<close> for the names the controller uses (\<open>power\<close>, \<open>volume\<close>,
  \<open>input\<close>, \<open>muted\<close>, \<open>apps\<close>): \<open>None\<close> is JavaScript's \<open>undefined\<close>. Only an object
  carries such properties; on a truthy number, string, boolean or array the read gives
  \<open>undefined\<close>.
\<close>

fun js_get :: "json \<Rightarrow> string \<Rightarrow> json option" where
  "js_get (JObj kvs) name = map_of kvs name"
| "js_get v name = None"

text \<open>Truthiness of a possibly undefined value.\<close>

fun truthy_opt :: "json option \<Rightarrow> bool" where
  "truthy_opt None = False"
| "truthy_opt (Some v) = truthy v"

text \<open>Decimal digits of a natural number, most significant first.\<close>

fun digits :: "nat \<Rightarrow> string" where
  "digits n = (if n < 10 then [''0123456789'' ! n]
               else digits (n div 10) @ [''0123456789'' ! (n mod 10)])"

declare digits.simps [simp del]

definition show_int :: "int \<Rightarrow> string" where
  "show_int i = (if i < 0 then CHR ''-'' # digits (nat (- i)) else digits (nat i))"

fun join_comma :: "string list \<Rightarrow> string" where
  "join_comma [] = []"
| "join_comma [s] = s"
| "join_comma (s # t # ss) = s @ CHR '','' # join_comma (t # ss)"

text \<open>
  The string a template literal \<open>`${v}`\<close> produces. An array is joined with commas, its
  \<open>null\<close> elements contributing the empty string.
\<close>

fun js_to_string :: "json \<Rightarrow> string"
  and js_elems :: "json list \<Rightarrow> string list" where
  "js_to_string JNull = ''null''"
| "js_to_string (JBool b) = (if b then ''true'' else ''false'')"
| "js_to_string (JNum i) = show_int i"
| "js_to_string (JStr s) = s"
| "js_to_string (JArr xs) = join_comma (js_elems xs)"
| "js_to_string (JObj kvs) = ''[object Object]''"
| "js_elems [] = []"
| "js_elems (x # xs) = (if x = JNull then [] else js_to_string x) # js_elems xs"

text \<open>
  Assigning to \<open>input.value\<close>: the attribute converts \<open>null\<close> to the empty string and
  everything else with the usual string conversion. (A range control then brings the
  value within the bounds its markup gives it; the markup is not part of the sources, and
  the value is kept here as assigned.)
\<close>

fun input_value :: "json \<Rightarrow> string" where
  "input_value JNull = []"
| "input_value v = js_to_string v"

section \<open>The network as the page sees it\<close>

text \<open>A call of \<open>fetch(url, options)\<close>, with the method and the body of its options.\<close>

record request =
  url :: string
  http_method :: string
  body :: "json option"

text \<open>
  What one \<open>fetch\<close> call ends in: the promise rejects (no response: network down, timeout,
  connection refused), or it resolves to a response with a status and a body. The body is
  given as \<open>response.json()\<close> sees it: \<open>None\<close> when it is not valid JSON.
\<close>

datatype fetch_result =
    Rejected
  | Response nat "json option"

text \<open>\<open>response.ok\<close>: the status is in the range 200 to 299.\<close>

definition ok :: "nat \<Rightarrow> bool" where
  "ok status = (200 \<le> status \<and> status \<le> 299)"

text \<open>What a \<open>throw\<close> carries.\<close>

datatype error =
    FetchFailed
  | HttpError nat
  | JsonSyntaxError
  | TypeError

text \<open>
  An asynchronous function of the controller runs synchronously up to its \<open>await\<close> of
  \<open>makeApiRequest\<close>, which runs synchronously up to its \<open>await fetch(...)\<close>. The rest of
  the function runs when the response arrives. \<open>cont\<close> names the function that is waiting,
  with the arguments it will use again.
\<close>

datatype cont =
    K_testConnection
  | K_refreshStatus
  | K_loadApps
  | K_setPower json
  | K_setVolume json
  | K_setMute json
  | K_setInput json
  | K_launchApp json
  | K_sendRemoteKey json

section \<open>The controller and the page\<close>

text \<open>
  The fields of \<open>VizioTVController\<close>, then the parts of the document it writes, then the
  network: every \<open>fetch\<close> call made so far, in order, and the calls still in flight.
  \<open>toasts\<close> lists every toast shown so far as (message, type); a toast leaves the page
  three seconds after it is shown. The document is taken to contain every element the
  controller looks up by id, so that writing to one never throws.
\<close>

record controller =
  apiUrl :: string
  isConnected :: bool
  tvInfo :: "json option"
  statusText :: string
  statusDot_connected :: bool
  powerStatus :: string
  volumeStatus :: string
  inputStatus :: string
  muteStatus :: string
  currentInputDisplay :: string
  volumeSlider_value :: string
  volumeValue :: string
  loadingOverlay_hidden :: bool
  appsGrid :: "json list"
  toasts :: "(string \<times> string) list"
  fetched :: "request list"
  pending :: "(request \<times> cont) list"

definition showLoading :: "bool \<Rightarrow> controller \<Rightarrow> controller" where
  "showLoading show s = s\<lparr>loadingOverlay_hidden := \<not> show\<rparr>"

definition showToast :: "string \<Rightarrow> string \<Rightarrow> controller \<Rightarrow> controller" where
  "showToast message type s = s\<lparr>toasts := toasts s @ [(message, type)]\<rparr>"

definition updateConnectionStatus :: "string \<Rightarrow> bool \<Rightarrow> controller \<Rightarrow> controller" where
  "updateConnectionStatus text connected s =
     s\<lparr>statusText := text, statusDot_connected := connected\<rparr>"

subsection \<open>makeApiRequest\<close>

text \<open>
  Up to the \<open>await\<close>: build the URL from the base origin of that moment, attach the body
  when \<open>data\<close> is truthy, call \<open>fetch\<close>. \<open>k\<close> is the caller that awaits the result.
\<close>

definition makeApiRequest :: "string \<Rightarrow> string \<Rightarrow> json option \<Rightarrow> cont \<Rightarrow> controller \<Rightarrow> controller" where
  "makeApiRequest endpoint meth data k s =
     (let options_body = (if truthy_opt data then data else None);
          r = \<lparr>url = apiUrl s @ endpoint, http_method = meth, body = options_body\<rparr>
      in s\<lparr>fetched := fetched s @ [r], pending := pending s @ [(r, k)]\<rparr>)"

text \<open>
  The body of the \<open>try\<close> after the \<open>await\<close>: \<open>fetch\<close> rejecting, the \<open>throw\<close> on a
  response that is not ok, and \<open>response.json()\<close> rejecting are the three ways out through
  an exception.
\<close>

fun makeApiRequest_try :: "fetch_result \<Rightarrow> error + json" where
  "makeApiRequest_try Rejected = Inl FetchFailed"
| "makeApiRequest_try (Response status b) =
     (if \<not> ok status then Inl (HttpError status)
      else case b of None \<Rightarrow> Inl JsonSyntaxError | Some j \<Rightarrow> Inr j)"

text \<open>
  The whole function from the response on, with its \<open>catch\<close>: what the caller's \<open>await\<close>
  receives (\<open>Inl\<close> would be a rejection, \<open>Inr\<close> the value resolved to, \<open>JNull\<close> for
  \<open>null\<close>) and the page after it.
\<close>

definition makeApiRequest_resume :: "fetch_result \<Rightarrow> controller \<Rightarrow> (error + json) \<times> controller" where
  "makeApiRequest_resume out s =
     (case makeApiRequest_try out of
        Inr j \<Rightarrow> (Inr j, s)
      | Inl e \<Rightarrow> (Inr JNull, showToast ''Connection failed'' ''error'' s))"

subsection \<open>Status\<close>

text \<open>\<open>a || b\<close> where \<open>a\<close> may be undefined.\<close>

definition or_else :: "json option \<Rightarrow> json \<Rightarrow> json" where
  "or_else a b = (case a of None \<Rightarrow> b | Some v \<Rightarrow> if truthy v then v else b)"

definition updateStatusDisplay :: "json \<Rightarrow> controller \<Rightarrow> controller" where
  "updateStatusDisplay info s =
     (let s1 = s\<lparr>powerStatus := js_to_string (or_else (js_get info ''power'') (JStr ''Unknown''))\<rparr>;
          s2 = s1\<lparr>volumeStatus := js_to_string (or_else (js_get info ''volume'') (JNum 0)) @ ''%''\<rparr>;
          s3 = s2\<lparr>inputStatus := js_to_string (or_else (js_get info ''input'') (JStr ''Unknown''))\<rparr>;
          s4 = s3\<lparr>muteStatus := (if truthy_opt (js_get info ''muted'') then ''Yes'' else ''No'')\<rparr>;
          s5 = s4\<lparr>currentInputDisplay := js_to_string (or_else (js_get info ''input'') (JStr ''Unknown''))\<rparr>
      in case js_get info ''volume'' of
           None \<Rightarrow> s5
         | Some v \<Rightarrow> s5\<lparr>volumeSlider_value := input_value v, volumeValue := js_to_string v @ ''%''\<rparr>)"

definition refreshStatus :: "controller \<Rightarrow> controller" where
  "refreshStatus s =
     (if \<not> isConnected s then s
      else makeApiRequest ''/tv/info'' ''GET'' None K_refreshStatus s)"

definition refreshStatus_resume :: "fetch_result \<Rightarrow> controller \<Rightarrow> controller" where
  "refreshStatus_resume out s =
     (case makeApiRequest_resume out s of
        (Inr info, s1) \<Rightarrow>
          if truthy info then updateStatusDisplay info (s1\<lparr>tvInfo := Some info\<rparr>) else s1
      | (Inl e, s1) \<Rightarrow> s1)"

subsection \<open>The apps list\<close>

text \<open>
  \<open>appsGrid\<close> holds, for each button of the grid in order, the app name the button was made
  for (its label shows the name, its click launches it). \<open>loadApps\<close> has no \<open>try\<close>: when
  \<open>response.apps\<close> is truthy and not an array, \<open>forEach\<close> is not a function, and the
  promise rejects after the grid has been emptied.
\<close>

definition loadApps :: "controller \<Rightarrow> controller" where
  "loadApps s = makeApiRequest ''/tv/apps'' ''GET'' None K_loadApps s"

definition loadApps_resume :: "fetch_result \<Rightarrow> controller \<Rightarrow> (error + unit) \<times> controller" where
  "loadApps_resume out s =
     (case makeApiRequest_resume out s of
        (Inl e, s1) \<Rightarrow> (Inl e, s1)
      | (Inr response, s1) \<Rightarrow>
          if truthy response \<and> truthy_opt (js_get response ''apps'') then
            (case js_get response ''apps'' of
               Some (JArr names) \<Rightarrow> (Inr (), s1\<lparr>appsGrid := names\<rparr>)
             | _ \<Rightarrow> (Inl TypeError, s1\<lparr>appsGrid := []\<rparr>))
          else (Inr (), s1))"

subsection \<open>testConnection\<close>

definition testConnection :: "controller \<Rightarrow> controller" where
  "testConnection s =
     (let s1 = showLoading True s;
          s2 = updateConnectionStatus ''Connecting...'' False s1
      in makeApiRequest ''/health'' ''GET'' None K_testConnection s2)"

definition testConnection_resume :: "fetch_result \<Rightarrow> controller \<Rightarrow> controller" where
  "testConnection_resume out s =
     (let (r, s1) = makeApiRequest_resume out s;
          s2 = (case r of
                  Inr response \<Rightarrow>
                    if truthy response then
                      (let c1 = s1\<lparr>isConnected := True\<rparr>;
                           c2 = updateConnectionStatus ''Connected'' True c1;
                           c3 = showToast ''Connected to TV'' ''success'' c2;
                           c4 = refreshStatus c3
                       in loadApps c4)
                    else
                      (let d1 = s1\<lparr>isConnected := False\<rparr>;
                           d2 = updateConnectionStatus ''Disconnected'' False d1
                       in showToast ''Failed to connect'' ''error'' d2)
                | Inl e \<Rightarrow>
                    (let d1 = s1\<lparr>isConnected := False\<rparr>;
                         d2 = updateConnectionStatus ''Disconnected'' False d1
                     in showToast ''Connection failed'' ''error'' d2))
      in showLoading False s2)"

subsection \<open>The command dispatchers\<close>

definition setPower :: "json \<Rightarrow> controller \<Rightarrow> controller" where
  "setPower power' s =
     (if \<not> isConnected s then showToast ''Not connected to TV'' ''error'' s
      else makeApiRequest ''/tv/power'' ''POST'' (Some (JObj [(''power'', power')]))
             (K_setPower power') (showLoading True s))"

definition setPower_resume :: "json \<Rightarrow> fetch_result \<Rightarrow> controller \<Rightarrow> controller" where
  "setPower_resume power' out s =
     (let (r, s1) = makeApiRequest_resume out s;
          s2 = (case r of
                  Inr response \<Rightarrow>
                    if truthy response
                    then refreshStatus (showToast (''TV turned '' @ js_to_string power') ''success'' s1)
                    else s1
                | Inl e \<Rightarrow> showToast ''Failed to control power'' ''error'' s1)
      in showLoading False s2)"

definition setVolume :: "json \<Rightarrow> controller \<Rightarrow> controller" where
  "setVolume volume s =
     (if \<not> isConnected s then showToast ''Not connected to TV'' ''error'' s
      else makeApiRequest ''/tv/volume'' ''POST'' (Some (JObj [(''volume'', volume)]))
             (K_setVolume volume) s)"

definition setVolume_resume :: "json \<Rightarrow> fetch_result \<Rightarrow> controller \<Rightarrow> controller" where
  "setVolume_resume volume out s =
     (let (r, s1) = makeApiRequest_resume out s
      in case r of
           Inr response \<Rightarrow>
             if truthy response
             then refreshStatus
                    (showToast (''Volume set to '' @ js_to_string volume @ ''%'') ''success'' s1)
             else s1
         | Inl e \<Rightarrow> showToast ''Failed to set volume'' ''error'' s1)"

definition setMute :: "json \<Rightarrow> controller \<Rightarrow> controller" where
  "setMute muted s =
     (if \<not> isConnected s then showToast ''Not connected to TV'' ''error'' s
      else makeApiRequest (''/tv/mute?muted='' @ js_to_string muted) ''POST'' None
             (K_setMute muted) s)"

definition setMute_resume :: "json \<Rightarrow> fetch_result \<Rightarrow> controller \<Rightarrow> controller" where
  "setMute_resume muted out s =
     (let (r, s1) = makeApiRequest_resume out s
      in case r of
           Inr response \<Rightarrow>
             if truthy response
             then refreshStatus
                    (showToast (if truthy muted then ''TV muted'' else ''TV unmuted'') ''success'' s1)
             else s1
         | Inl e \<Rightarrow> showToast ''Failed to control mute'' ''error'' s1)"

definition setInput :: "json \<Rightarrow> controller \<Rightarrow> controller" where
  "setInput inputName s =
     (if \<not> isConnected s then showToast ''Not connected to TV'' ''error'' s
      else makeApiRequest ''/tv/input'' ''POST'' (Some (JObj [(''input_name'', inputName)]))
             (K_setInput inputName) (showLoading True s))"

definition setInput_resume :: "json \<Rightarrow> fetch_result \<Rightarrow> controller \<Rightarrow> controller" where
  "setInput_resume inputName out s =
     (let (r, s1) = makeApiRequest_resume out s;
          s2 = (case r of
                  Inr response \<Rightarrow>
                    if truthy response
                    then refreshStatus
                           (showToast (''Switched to '' @ js_to_string inputName) ''success'' s1)
                    else s1
                | Inl e \<Rightarrow> showToast ''Failed to switch input'' ''error'' s1)
      in showLoading False s2)"

definition launchApp :: "json \<Rightarrow> controller \<Rightarrow> controller" where
  "launchApp appName s =
     (if \<not> isConnected s then showToast ''Not connected to TV'' ''error'' s
      else makeApiRequest ''/tv/app'' ''POST'' (Some (JObj [(''app_name'', appName)]))
             (K_launchApp appName) (showLoading True s))"

definition launchApp_resume :: "json \<Rightarrow> fetch_result \<Rightarrow> controller \<Rightarrow> controller" where
  "launchApp_resume appName out s =
     (let (r, s1) = makeApiRequest_resume out s;
          s2 = (case r of
                  Inr response \<Rightarrow>
                    if truthy response
                    then showToast (''Launching '' @ js_to_string appName) ''success'' s1
                    else s1
                | Inl e \<Rightarrow>
                    showToast (''Failed to launch '' @ js_to_string appName) ''error'' s1)
      in showLoading False s2)"

definition sendRemoteKey :: "json \<Rightarrow> controller \<Rightarrow> controller" where
  "sendRemoteKey key s =
     (if \<not> isConnected s then showToast ''Not connected to TV'' ''error'' s
      else makeApiRequest ''/tv/remote'' ''POST'' (Some (JObj [(''key'', key)]))
             (K_sendRemoteKey key) s)"

definition sendRemoteKey_resume :: "json \<Rightarrow> fetch_result \<Rightarrow> controller \<Rightarrow> controller" where
  "sendRemoteKey_resume key out s =
     (let (r, s1) = makeApiRequest_resume out s
      in case r of
           Inr response \<Rightarrow>
             if truthy response
             then showToast (''Key '' @ [CHR 0x27] @ js_to_string key @ [CHR 0x27] @ '' sent'')
                    ''success'' s1
             else s1
         | Inl e \<Rightarrow> showToast ''Failed to send remote key'' ''error'' s1)"

definition refreshAllData :: "controller \<Rightarrow> controller" where
  "refreshAllData s = showToast ''Data refreshed'' ''success'' (refreshStatus s)"

subsection \<open>The event loop\<close>

text \<open>The rest of the waiting function, run when its response arrives.\<close>

fun resume :: "cont \<Rightarrow> fetch_result \<Rightarrow> controller \<Rightarrow> controller" where
  "resume K_testConnection out s = testConnection_resume out s"
| "resume K_refreshStatus out s = refreshStatus_resume out s"
| "resume K_loadApps out s = snd (loadApps_resume out s)"
| "resume (K_setPower power') out s = setPower_resume power' out s"
| "resume (K_setVolume volume) out s = setVolume_resume volume out s"
| "resume (K_setMute muted) out s = setMute_resume muted out s"
| "resume (K_setInput inputName) out s = setInput_resume inputName out s"
| "resume (K_launchApp appName) out s = launchApp_resume appName out s"
| "resume (K_sendRemoteKey key) out s = sendRemoteKey_resume key out s"

text \<open>
  The \<open>i\<close>-th call in flight ends in \<open>out\<close>. Calls in flight may end in any order.
\<close>

definition deliver :: "nat \<Rightarrow> fetch_result \<Rightarrow> controller \<Rightarrow> controller" where
  "deliver i out s =
     (if i < length (pending s)
      then resume (snd (pending s ! i)) out
             (s\<lparr>pending := take i (pending s) @ drop (Suc i) (pending s)\<rparr>)
      else s)"

text \<open>The listeners on \<open>window\<close> and \<open>document\<close>.\<close>

definition on_online :: "controller \<Rightarrow> controller" where
  "on_online s = showToast ''Back online'' ''success'' s"

definition on_offline :: "controller \<Rightarrow> controller" where
  "on_offline s =
     updateConnectionStatus ''Offline'' False (showToast ''No internet connection'' ''error'' s)"

definition on_visibilitychange :: "bool \<Rightarrow> controller \<Rightarrow> controller" where
  "on_visibilitychange hidden s = (if \<not> hidden \<and> isConnected s then refreshStatus s else s)"

text \<open>
  The constructor followed by \<open>init\<close>. \<open>stored\<close> is what local storage holds under
  \<open>vizioApiUrl\<close>, \<open>page\<close> gives the document as loaded. A freshly loaded page has made no
  call yet. Of \<open>init\<close>, only \<open>testConnection\<close> touches the fields modelled here: the other
  steps register listeners and the service worker.
\<close>

definition new_VizioTVController :: "string option \<Rightarrow> controller \<Rightarrow> controller" where
  "new_VizioTVController stored page =
     testConnection
       (page\<lparr>apiUrl := (case stored of None \<Rightarrow> [] | Some u \<Rightarrow> if u \<noteq> [] then u else []),
             isConnected := False, tvInfo := None, fetched := [], pending := []\<rparr>)"

datatype event =
    Call_setPower json
  | Call_setVolume json
  | Call_setMute json
  | Call_setInput json
  | Call_launchApp json
  | Call_sendRemoteKey json
  | Call_refreshStatus
  | Call_testConnection
  | Call_refreshAllData
  | Online
  | Offline
  | VisibilityChange bool
  | Arrives nat fetch_result

fun step :: "event \<Rightarrow> controller \<Rightarrow> controller" where
  "step (Call_setPower power') s = setPower power' s"
| "step (Call_setVolume volume) s = setVolume volume s"
| "step (Call_setMute muted) s = setMute muted s"
| "step (Call_setInput inputName) s = setInput inputName s"
| "step (Call_launchApp appName) s = launchApp appName s"
| "step (Call_sendRemoteKey key) s = sendRemoteKey key s"
| "step Call_refreshStatus s = refreshStatus s"
| "step Call_testConnection s = testConnection s"
| "step Call_refreshAllData s = refreshAllData s"
| "step Online s = on_online s"
| "step Offline s = on_offline s"
| "step (VisibilityChange hidden) s = on_visibilitychange hidden s"
| "step (Arrives i out) s = deliver i out s"

definition run :: "event list \<Rightarrow> controller \<Rightarrow> controller" where
  "run evs s = fold step evs s"

section \<open>The service worker\<close>

text \<open>
  \<open>new URL(event.request.url)\<close>: the parts of a request's URL. Two requests have the same
  URL when all three parts agree.
\<close>

record location =
  origin :: string
  pathname :: string
  search :: string

record sw_request =
  rq_method :: string
  rq_url :: location

record sw_response =
  status :: nat
  payload :: string

text \<open>
  What a \<open>fetch\<close> of the worker ends in, and also what the page receives from
  \<open>respondWith\<close>: a response, or a network error (the promise handed to \<open>respondWith\<close>
  rejects, or resolves to \<open>undefined\<close>).
\<close>

datatype net_result =
    NetworkError
  | Resolved sw_response

type_synonym network = "sw_request \<Rightarrow> net_result"

text \<open>
  A cache maps the URL of a GET request to the response stored for it; the cache storage
  holds the named caches in the order they were created.
\<close>

type_synonym cache = "(location \<times> sw_response) list"

type_synonym cache_storage = "(string \<times> cache) list"

definition CACHE_NAME :: string where
  "CACHE_NAME = ''vizio-tv-controller-v1''"

definition urlsToCache :: "string list" where
  "urlsToCache = [''/'', ''/index.html'', ''/styles.css'', ''/app.js'', ''/manifest.json'']"

text \<open>\<open>caches.open(name)\<close> creates the cache when there is none of that name.\<close>

definition caches_open :: "string \<Rightarrow> cache_storage \<Rightarrow> cache_storage" where
  "caches_open name storage =
     (if name \<in> set (map fst storage) then storage else storage @ [(name, [])])"

text \<open>\<open>cache.put\<close> replaces the entry of the same URL.\<close>

definition cache_put :: "location \<Rightarrow> sw_response \<Rightarrow> cache \<Rightarrow> cache" where
  "cache_put k r c = filter (\<lambda>(k', r'). k' \<noteq> k) c @ [(k, r)]"

text \<open>
  \<open>cache.match(request)\<close> finds nothing for a request that is not a GET, and otherwise the
  entry stored under the request's URL. \<open>caches.match(request)\<close> asks the caches in the
  order of their creation and gives the first entry found.
\<close>

definition cache_match :: "cache \<Rightarrow> sw_request \<Rightarrow> sw_response option" where
  "cache_match c req = (if rq_method req \<noteq> ''GET'' then None else map_of c (rq_url req))"

fun caches_match :: "cache_storage \<Rightarrow> sw_request \<Rightarrow> sw_response option" where
  "caches_match [] req = None"
| "caches_match ((name, c) # rest) req =
     (case cache_match c req of Some r \<Rightarrow> Some r | None \<Rightarrow> caches_match rest req)"

text \<open>
  \<open>cache.addAll(urls)\<close> fetches every URL, resolved against the worker's own origin, and
  stores the responses only when every one of them arrived with an ok status other than
  206; otherwise it rejects and stores nothing.
\<close>

fun fetch_all :: "network \<Rightarrow> location list \<Rightarrow> (location \<times> sw_response) list option" where
  "fetch_all net [] = Some []"
| "fetch_all net (k # ks) =
     (case net \<lparr>rq_method = ''GET'', rq_url = k\<rparr> of
        NetworkError \<Rightarrow> None
      | Resolved r \<Rightarrow>
          if ok (status r) \<and> status r \<noteq> 206 then
            (case fetch_all net ks of None \<Rightarrow> None | Some es \<Rightarrow> Some ((k, r) # es))
          else None)"

definition cache_addAll :: "network \<Rightarrow> string \<Rightarrow> string list \<Rightarrow> cache \<Rightarrow> error + cache" where
  "cache_addAll net self urls c =
     (case fetch_all net (map (\<lambda>p. \<lparr>origin = self, pathname = p, search = []\<rparr>) urls) of
        None \<Rightarrow> Inl TypeError
      | Some es \<Rightarrow> Inr (fold (\<lambda>(k, r). cache_put k r) es c))"

text \<open>The cache of a name, as \<open>caches.open\<close> hands it over: empty when just created.\<close>

definition cache_of :: "string \<Rightarrow> cache_storage \<Rightarrow> cache" where
  "cache_of name storage = (case map_of storage name of None \<Rightarrow> [] | Some c \<Rightarrow> c)"

text \<open>
  The \<open>install\<close> listener: open the cache, add the static assets. \<open>self\<close> is the origin
  the worker is served from. The result says whether the promise given to \<open>waitUntil\<close>
  resolved (\<open>Inr\<close>) or rejected, together with the storage after it.
\<close>

definition on_install :: "network \<Rightarrow> string \<Rightarrow> cache_storage \<Rightarrow> (error + unit) \<times> cache_storage" where
  "on_install net self storage =
     (let storage1 = caches_open CACHE_NAME storage
      in case cache_addAll net self urlsToCache (cache_of CACHE_NAME storage1) of
           Inl e \<Rightarrow> (Inl e, storage1)
         | Inr c \<Rightarrow>
             (Inr (), map (\<lambda>(name, old). if name = CACHE_NAME then (name, c) else (name, old))
                        storage1))"

text \<open>\<open>pathname.startsWith(prefix)\<close>.\<close>

definition startsWith :: "string \<Rightarrow> string \<Rightarrow> bool" where
  "startsWith s pre = (take (length pre) s = pre)"

definition isApi :: "location \<Rightarrow> bool" where
  "isApi u = (startsWith (pathname u) ''/tv/'' \<or> pathname u = ''/health'')"

text \<open>
  The \<open>fetch\<close> listener. The result is what the page receives, the network fetches the
  worker made for it, in order, and the cache storage after it.
\<close>

definition on_fetch :: "network \<Rightarrow> cache_storage \<Rightarrow> sw_request \<Rightarrow> net_result \<times> sw_request list \<times> cache_storage" where
  "on_fetch net storage req =
     (if isApi (rq_url req) then
        (case net req of
           Resolved r \<Rightarrow> (Resolved r, [req], storage)
         | NetworkError \<Rightarrow>
             (case caches_match storage req of
                Some cached \<Rightarrow> (Resolved cached, [req], storage)
              | None \<Rightarrow> (NetworkError, [req], storage)))
      else
        (case caches_match storage req of
           Some response \<Rightarrow> (Resolved response, [], storage)
         | None \<Rightarrow> (net req, [req], storage)))"

text \<open>The \<open>activate\<close> listener deletes every cache of another name.\<close>

definition on_activate :: "cache_storage \<Rightarrow> cache_storage" where
  "on_activate storage = filter (\<lambda>(cacheName, c). cacheName = CACHE_NAME) storage"

text \<open>The worker's life: its listeners run one after the other on the cache storage.\<close>

datatype sw_event =
    Install network
  | Fetch network sw_request
  | Activate

fun sw_step :: "string \<Rightarrow> sw_event \<Rightarrow> cache_storage \<Rightarrow> cache_storage" where
  "sw_step self (Install net) storage = snd (on_install net self storage)"
| "sw_step self (Fetch net req) storage = snd (snd (on_fetch net storage req))"
| "sw_step self Activate storage = on_activate storage"

definition sw_run :: "string \<Rightarrow> sw_event list \<Rightarrow> cache_storage \<Rightarrow> cache_storage" where
  "sw_run self evs storage = fold (sw_step self) evs storage"

text \<open>Every entry of every cache is one of the static assets of the worker's origin.\<close>

definition static_only :: "string \<Rightarrow> cache_storage \<Rightarrow> bool" where
  "static_only self storage =
     list_all (\<lambda>(name, c).
        list_all (\<lambda>(k, r). origin k = self \<and> pathname k \<in> set urlsToCache \<and> search k = []) c)
       storage"

text \<open>The URLs under which some cache of the storage holds an entry.\<close>

definition stored_urls :: "cache_storage \<Rightarrow> location list" where
  "stored_urls storage = concat (map (\<lambda>(name, c). map fst c) storage)"

section \<open>Vocabulary of the properties\<close>

text \<open>The request \<open>makeApiRequest\<close> builds in state \<open>s\<close>.\<close>

definition api_call :: "controller \<Rightarrow> string \<Rightarrow> string \<Rightarrow> json option \<Rightarrow> request" where
  "api_call s endpoint meth b = \<lparr>url = apiUrl s @ endpoint, http_method = meth, body = b\<rparr>"

text \<open>
  The caller's test \<open>if (response)\<close> on what \<open>makeApiRequest\<close> resolves to: the call
  counts as a success for the caller exactly when this holds.
\<close>

definition truthy_result :: "fetch_result \<Rightarrow> bool" where
  "truthy_result out = (case makeApiRequest_try out of Inr j \<Rightarrow> truthy j | Inl e \<Rightarrow> False)"

text \<open>A failure at the transport level: no response, or a status that is not 2xx.\<close>

fun transport_failure :: "fetch_result \<Rightarrow> bool" where
  "transport_failure Rejected = True"
| "transport_failure (Response st b) = (\<not> ok st)"

text \<open>Any failure of an API call: the transport failed, or the body is not JSON.\<close>

fun api_failure :: "fetch_result \<Rightarrow> bool" where
  "api_failure Rejected = True"
| "api_failure (Response st b) = (\<not> ok st \<or> b = None)"

text \<open>The six user intents: power, volume, mute, input, app launch, remote key.\<close>

fun is_intent :: "event \<Rightarrow> bool" where
  "is_intent (Call_setPower p) = True"
| "is_intent (Call_setVolume p) = True"
| "is_intent (Call_setMute p) = True"
| "is_intent (Call_setInput p) = True"
| "is_intent (Call_launchApp p) = True"
| "is_intent (Call_sendRemoteKey p) = True"
| "is_intent ev = False"

text \<open>
  The dispatchers that call \<open>refreshStatus\<close> after a truthy result (power, volume, mute,
  input), and those that never do (app launch, remote key).
\<close>

fun repolls :: "cont \<Rightarrow> bool" where
  "repolls (K_setPower p) = True"
| "repolls (K_setVolume p) = True"
| "repolls (K_setMute p) = True"
| "repolls (K_setInput p) = True"
| "repolls k = False"

fun forgets :: "cont \<Rightarrow> bool" where
  "forgets (K_launchApp p) = True"
| "forgets (K_sendRemoteKey p) = True"
| "forgets k = False"

text \<open>From \<open>s\<close> to \<open>s'\<close> exactly one call was made: \<open>r\<close>, awaited by \<open>k\<close>.\<close>

definition issues :: "controller \<Rightarrow> controller \<Rightarrow> request \<Rightarrow> cont \<Rightarrow> bool" where
  "issues s s' r k = (fetched s' = fetched s @ [r] \<and> pending s' = pending s @ [(r, k)])"

text \<open>Every call in flight is a status poll or the apps-list fetch.\<close>

definition only_polls :: "controller \<Rightarrow> bool" where
  "only_polls s = list_all (\<lambda>(r, k). k = K_refreshStatus \<or> k = K_loadApps) (pending s)"

text \<open>A URL is one of the static assets of the worker's origin.\<close>

definition static_entry :: "string \<Rightarrow> location \<Rightarrow> bool" where
  "static_entry self k = (origin k = self \<and> pathname k \<in> set urlsToCache \<and> search k = [])"

subsection \<open>Example inputs\<close>

text \<open>A document as loaded, before the controller exists.\<close>

definition blank_page :: controller where
  "blank_page =
     \<lparr>apiUrl = [], isConnected = False, tvInfo = None, statusText = [],
      statusDot_connected = False, powerStatus = [], volumeStatus = [], inputStatus = [],
      muteStatus = [], currentInputDisplay = [], volumeSlider_value = ''50'',
      volumeValue = ''50%'', loadingOverlay_hidden = True, appsGrid = [], toasts = [],
      fetched = [], pending = []\<rparr>"

text \<open>A health probe answered with 200 and a JSON object.\<close>

definition health_ok :: fetch_result where
  "health_ok = Response 200 (Some (JObj [(''status'', JStr ''ok'')]))"

text \<open>A command answered with 200 and the JSON body \<open>null\<close>.\<close>

definition null_ok :: fetch_result where
  "null_ok = Response 200 (Some JNull)"

text \<open>
  The page after a fresh start whose probe was answered: connected, with the status poll
  and the apps-list fetch in flight.
\<close>

definition connected_page :: controller where
  "connected_page = deliver 0 health_ok (new_VizioTVController None blank_page)"

text \<open>A network that answers every request with 200, and one without connectivity.\<close>

definition example_net :: network where
  "example_net req = Resolved \<lparr>status = 200, payload = pathname (rq_url req)\<rparr>"

definition offline_net :: network where
  "offline_net req = NetworkError"


text \<open>The cache storage after the worker was installed and activated on a fresh origin.\<close>

definition example_storage :: cache_storage where
  "example_storage = sw_run ''https://tv.local'' [Install example_net, Activate] []"


definition logo_request :: sw_request where
  "logo_request = \<lparr>rq_method = ''GET'',
      rq_url = \<lparr>origin = ''https://tv.local'', pathname = ''/icon-192.png'', search = []\<rparr>\<rparr>"

definition index_request :: sw_request where
  "index_request = \<lparr>rq_method = ''GET'',
      rq_url = \<lparr>origin = ''https://tv.local'', pathname = ''/index.html'', search = []\<rparr>\<rparr>"


definition power_request :: sw_request where
  "power_request = \<lparr>rq_method = ''POST'',
      rq_url = \<lparr>origin = ''https://tv.local'', pathname = ''/tv/power'', search = []\<rparr>\<rparr>"

section \<open>Properties of the controller\<close>

lemmas ui_defs = showLoading_def showToast_def updateConnectionStatus_def

lemmas dispatch_defs = setPower_def setVolume_def setMute_def setInput_def launchApp_def
  sendRemoteKey_def

lemmas resume_defs = setPower_resume_def setVolume_resume_def setMute_resume_def
  setInput_resume_def launchApp_resume_def sendRemoteKey_resume_def refreshStatus_resume_def
  loadApps_resume_def testConnection_resume_def

lemmas run_defs = run_def deliver_def new_VizioTVController_def testConnection_def
  makeApiRequest_def makeApiRequest_resume_def refreshStatus_def loadApps_def ok_def Let_def

subsection \<open>What an API call resolves to\<close>

lemma makeApiRequest_resume_failure:
  "api_failure out \<Longrightarrow>
     makeApiRequest_resume out s = (Inr JNull, showToast ''Connection failed'' ''error'' s)"
  by (cases out) (auto simp: makeApiRequest_resume_def)

lemma makeApiRequest_resume_shape:
  "\<exists>j s'. makeApiRequest_resume out s = (Inr j, s') \<and>
      (s' = s \<or> s' = showToast ''Connection failed'' ''error'' s)"
  by (cases out) (auto simp: makeApiRequest_resume_def split: option.splits)

lemma transport_failure_api_failure: "transport_failure out \<Longrightarrow> api_failure out"
  by (cases out) auto



subsection \<open>A concrete session\<close>

lemma connected_page_eq:
  "connected_page =
     blank_page\<lparr>isConnected := True, statusText := ''Connected'', statusDot_connected := True,
        toasts := [(''Connected to TV'', ''success'')],
        fetched := [api_call blank_page ''/health'' ''GET'' None,
                    api_call blank_page ''/tv/info'' ''GET'' None,
                    api_call blank_page ''/tv/apps'' ''GET'' None],
        pending := [(api_call blank_page ''/tv/info'' ''GET'' None, K_refreshStatus),
                    (api_call blank_page ''/tv/apps'' ''GET'' None, K_loadApps)]\<rparr>"
  by (simp add: connected_page_def health_ok_def blank_page_def run_defs resume_defs ui_defs
        api_call_def)

subsection \<open>The guard of the dispatchers\<close>

lemma intent_issues_post:
  "isConnected s \<Longrightarrow> is_intent ev \<Longrightarrow>
     \<exists>r. fetched (step ev s) = fetched s @ [r] \<and> http_method r = ''POST''"
  by (cases ev) (simp_all add: dispatch_defs makeApiRequest_def showLoading_def Let_def)






subsection \<open>Dispatch and re-poll\<close>

lemma truthy_resume:
  "truthy_result out \<Longrightarrow> \<exists>j. makeApiRequest_resume out s = (Inr j, s) \<and> truthy j"
  by (cases out)
     (auto simp: truthy_result_def makeApiRequest_resume_def split: option.splits if_splits)

lemma falsy_resume:
  "\<not> truthy_result out \<Longrightarrow>
     \<exists>j s'. makeApiRequest_resume out s = (Inr j, s') \<and> \<not> truthy j \<and> fetched s' = fetched s"
  by (cases out)
     (auto simp: truthy_result_def makeApiRequest_resume_def showToast_def
        split: option.splits if_splits)

lemma repoll_resume:
  assumes "repolls k"
  shows "fetched (resume k out t) =
     (if truthy_result out \<and> isConnected t
      then fetched t @ [api_call t ''/tv/info'' ''GET'' None] else fetched t)"
proof (cases "truthy_result out")
  case True
  then obtain j where "makeApiRequest_resume out t = (Inr j, t)" "truthy j"
    using truthy_resume by blast
  with assms True show ?thesis
    by (cases k)
       (simp_all add: resume_defs refreshStatus_def makeApiRequest_def api_call_def ui_defs
          Let_def)
next
  case False
  then obtain j s' where "makeApiRequest_resume out t = (Inr j, s')" "\<not> truthy j"
      "fetched s' = fetched t"
    using falsy_resume by blast
  with assms False show ?thesis
    by (cases k) (simp_all add: resume_defs ui_defs)
qed

lemma forget_resume:
  assumes "forgets k"
  shows "fetched (resume k out t) = fetched t"
proof -
  obtain j s' where "makeApiRequest_resume out t = (Inr j, s')"
    and "s' = t \<or> s' = showToast ''Connection failed'' ''error'' t"
    using makeApiRequest_resume_shape by blast
  with assms show ?thesis
    by (cases k) (auto simp: resume_defs ui_defs)
qed

lemma deliver_fetched:
  "i < length (pending t) \<Longrightarrow>
     fetched (deliver i out t) =
       fetched (resume (snd (pending t ! i)) out
         (t\<lparr>pending := take i (pending t) @ drop (Suc i) (pending t)\<rparr>))"
  by (simp add: deliver_def)

lemma deliver_last:
  "pending s' = pending s @ [(r, k)] \<Longrightarrow>
     deliver (length (pending s)) out s' = resume k out (s'\<lparr>pending := pending s\<rparr>)"
  by (simp add: deliver_def)

text \<open>
  Claim C7, as the code has it. A dispatched intent (one issued while connected) makes
  exactly one \<open>fetch\<close> call, the POST of its kind, and awaits it. When the response of
  a power, volume, mute or input call arrives, one status poll (the GET of \<open>/tv/info\<close>)
  is issued if the call resolved to a truthy value (a 2xx response whose body is JSON
  and truthy) and the session is connected at that moment; otherwise no call is made.
  When the response of an app-launch or remote-key call arrives, no call is made
  whatever it is. In particular a volume intent followed at once by its response makes
  the POST and then the poll exactly when the result is truthy, and a remote key makes
  the POST alone.
\<close>

theorem intent_one_request_repoll:
  "isConnected s \<Longrightarrow>
     issues s (step (Call_setPower p) s)
       (api_call s ''/tv/power'' ''POST'' (Some (JObj [(''power'', p)]))) (K_setPower p) \<and>
     issues s (step (Call_setVolume p) s)
       (api_call s ''/tv/volume'' ''POST'' (Some (JObj [(''volume'', p)]))) (K_setVolume p) \<and>
     issues s (step (Call_setMute p) s)
       (api_call s (''/tv/mute?muted='' @ js_to_string p) ''POST'' None) (K_setMute p) \<and>
     issues s (step (Call_setInput p) s)
       (api_call s ''/tv/input'' ''POST'' (Some (JObj [(''input_name'', p)]))) (K_setInput p) \<and>
     issues s (step (Call_launchApp p) s)
       (api_call s ''/tv/app'' ''POST'' (Some (JObj [(''app_name'', p)]))) (K_launchApp p) \<and>
     issues s (step (Call_sendRemoteKey p) s)
       (api_call s ''/tv/remote'' ''POST'' (Some (JObj [(''key'', p)]))) (K_sendRemoteKey p) \<and>
     (i < length (pending t) \<and> repolls (snd (pending t ! i)) \<longrightarrow>
        fetched (step (Arrives i out) t) =
          (if truthy_result out \<and> isConnected t
           then fetched t @ [api_call t ''/tv/info'' ''GET'' None] else fetched t)) \<and>
     (i < length (pending t) \<and> forgets (snd (pending t ! i)) \<longrightarrow>
        fetched (step (Arrives i out) t) = fetched t) \<and>
     fetched (run [Call_setVolume p, Arrives (length (pending s)) out] s) =
       fetched s @ [api_call s ''/tv/volume'' ''POST'' (Some (JObj [(''volume'', p)]))] @
         (if truthy_result out then [api_call s ''/tv/info'' ''GET'' None] else []) \<and>
     fetched (run [Call_sendRemoteKey p, Arrives (length (pending s)) out] s) =
       fetched s @ [api_call s ''/tv/remote'' ''POST'' (Some (JObj [(''key'', p)]))]"
proof -
  assume c: "isConnected s"
  have dispatch: "issues s (step (Call_setPower p) s)
       (api_call s ''/tv/power'' ''POST'' (Some (JObj [(''power'', p)]))) (K_setPower p) \<and>
     issues s (step (Call_setVolume p) s)
       (api_call s ''/tv/volume'' ''POST'' (Some (JObj [(''volume'', p)]))) (K_setVolume p) \<and>
     issues s (step (Call_setMute p) s)
       (api_call s (''/tv/mute?muted='' @ js_to_string p) ''POST'' None) (K_setMute p) \<and>
     issues s (step (Call_setInput p) s)
       (api_call s ''/tv/input'' ''POST'' (Some (JObj [(''input_name'', p)]))) (K_setInput p) \<and>
     issues s (step (Call_launchApp p) s)
       (api_call s ''/tv/app'' ''POST'' (Some (JObj [(''app_name'', p)]))) (K_launchApp p) \<and>
     issues s (step (Call_sendRemoteKey p) s)
       (api_call s ''/tv/remote'' ''POST'' (Some (JObj [(''key'', p)]))) (K_sendRemoteKey p)"
    using c
    by (simp add: issues_def dispatch_defs makeApiRequest_def api_call_def showLoading_def Let_def)
  have arrive_repoll: "fetched (step (Arrives i out) t) =
          (if truthy_result out \<and> isConnected t
           then fetched t @ [api_call t ''/tv/info'' ''GET'' None] else fetched t)"
    if "i < length (pending t)" "repolls (snd (pending t ! i))"
    using that by (simp add: deliver_fetched repoll_resume api_call_def)
  have arrive_forget: "fetched (step (Arrives i out) t) = fetched t"
    if "i < length (pending t)" "forgets (snd (pending t ! i))"
    using that by (simp add: deliver_fetched forget_resume)
  have run_volume: "fetched (run [Call_setVolume p, Arrives (length (pending s)) out] s) =
       fetched s @ [api_call s ''/tv/volume'' ''POST'' (Some (JObj [(''volume'', p)]))] @
         (if truthy_result out then [api_call s ''/tv/info'' ''GET'' None] else [])"
  proof -
    let ?s' = "step (Call_setVolume p) s"
    from dispatch have i: "fetched ?s' = fetched s @ [api_call s ''/tv/volume'' ''POST'' (Some (JObj [(''volume'', p)]))]"
      and q: "pending ?s' = pending s @ [(api_call s ''/tv/volume'' ''POST'' (Some (JObj [(''volume'', p)])), K_setVolume p)]"
      by (simp_all add: issues_def)
    have c': "isConnected ?s'" and u: "apiUrl ?s' = apiUrl s"
      using c by (simp_all add: setVolume_def makeApiRequest_def Let_def)
    have d: "deliver (length (pending s)) out ?s' =
        resume (K_setVolume p) out (?s'\<lparr>pending := pending s\<rparr>)"
      using q by (rule deliver_last)
    have "fetched (resume (K_setVolume p) out (?s'\<lparr>pending := pending s\<rparr>)) =
        (if truthy_result out
         then fetched ?s' @ [api_call s ''/tv/info'' ''GET'' None] else fetched ?s')"
      using repoll_resume [of "K_setVolume p" out "?s'\<lparr>pending := pending s\<rparr>"] c' u
      by (simp add: api_call_def)
    with d i show ?thesis by (simp add: run_def)
  qed
  have run_key: "fetched (run [Call_sendRemoteKey p, Arrives (length (pending s)) out] s) =
       fetched s @ [api_call s ''/tv/remote'' ''POST'' (Some (JObj [(''key'', p)]))]"
  proof -
    let ?s' = "step (Call_sendRemoteKey p) s"
    from dispatch have i: "fetched ?s' = fetched s @ [api_call s ''/tv/remote'' ''POST'' (Some (JObj [(''key'', p)]))]"
      and q: "pending ?s' = pending s @ [(api_call s ''/tv/remote'' ''POST'' (Some (JObj [(''key'', p)])), K_sendRemoteKey p)]"
      by (simp_all add: issues_def)
    have d: "deliver (length (pending s)) out ?s' =
        resume (K_sendRemoteKey p) out (?s'\<lparr>pending := pending s\<rparr>)"
      using q by (rule deliver_last)
    have "fetched (resume (K_sendRemoteKey p) out (?s'\<lparr>pending := pending s\<rparr>)) = fetched ?s'"
      using forget_resume [of "K_sendRemoteKey p" out "?s'\<lparr>pending := pending s\<rparr>"]
      by simp
    with d i show ?thesis by (simp add: run_def)
  qed
  from dispatch arrive_repoll arrive_forget run_volume run_key show ?thesis by blast
qed

theorem intent_one_request_repoll_witness:
  "isConnected connected_page \<and> truthy_result health_ok \<and>
   fetched (run [Call_setVolume (JNum 45), Arrives 2 health_ok] connected_page) =
     fetched connected_page @
       [\<lparr>url = ''/tv/volume'', http_method = ''POST'',
         body = Some (JObj [(''volume'', JNum 45)])\<rparr>,
        \<lparr>url = ''/tv/info'', http_method = ''GET'', body = None\<rparr>] \<and>
   fetched (run [Call_sendRemoteKey (JStr ''UP''), Arrives 2 health_ok] connected_page) =
     fetched connected_page @
       [\<lparr>url = ''/tv/remote'', http_method = ''POST'',
         body = Some (JObj [(''key'', JStr ''UP'')])\<rparr>]"
  using intent_one_request_repoll [of connected_page "JNum 45" 0 connected_page health_ok]
    intent_one_request_repoll [of connected_page "JStr ''UP''" 0 connected_page health_ok]
  by (simp add: connected_page_eq blank_page_def api_call_def health_ok_def truthy_result_def
        ok_def numeral_2_eq_2)


text \<open>
  Claim C7 as stated fails. In a connected session a volume command is answered with 200
  and the body \<open>null\<close>, and a power command with 204 and no body: both are 2xx
  responses, and after neither is \<open>/tv/info\<close> requested.
\<close>

theorem null_body_no_repoll:
  "isConnected connected_page \<and> ok 200 \<and> ok 204 \<and>
   fetched (run [Call_setVolume (JNum 45), Arrives 2 null_ok] connected_page) =
     fetched connected_page @
       [\<lparr>url = ''/tv/volume'', http_method = ''POST'',
         body = Some (JObj [(''volume'', JNum 45)])\<rparr>] \<and>
   pending (run [Call_setVolume (JNum 45), Arrives 2 null_ok] connected_page) =
     pending connected_page \<and>
   fetched (run [Call_setPower (JStr ''on''), Arrives 2 (Response 204 None)] connected_page) =
     fetched connected_page @
       [\<lparr>url = ''/tv/power'', http_method = ''POST'',
         body = Some (JObj [(''power'', JStr ''on'')])\<rparr>]"
  by (simp add: connected_page_eq blank_page_def api_call_def null_ok_def run_defs dispatch_defs
        resume_defs ui_defs)

subsection \<open>Transport failures\<close>

lemma resume_failure:
  "api_failure out \<Longrightarrow> k \<noteq> K_testConnection \<Longrightarrow>
     resume k out s = showToast ''Connection failed'' ''error'' s \<or>
     resume k out s = showLoading False (showToast ''Connection failed'' ''error'' s)"
  by (cases k) (simp_all add: makeApiRequest_resume_failure resume_defs)

lemma testConnection_failure:
  "api_failure out \<Longrightarrow>
     testConnection_resume out s =
       showLoading False (showToast ''Failed to connect'' ''error''
         (updateConnectionStatus ''Disconnected'' False
            ((showToast ''Connection failed'' ''error'' s)\<lparr>isConnected := False\<rparr>)))"
  by (simp add: makeApiRequest_resume_failure testConnection_resume_def)

text \<open>
  Claim C1, as the code has it. A command, status or apps-list call that fails at the
  transport level leaves \<open>isConnected\<close> and the status text as they were: only the toast
  "Connection failed" is shown, and no call is made. An intent issued afterwards,
  the session being connected, is dispatched to the network as a POST. Only the health
  probe of \<open>testConnection\<close> sets the state to Disconnected when it fails.
\<close>

theorem transport_failure_keeps_connection:
  "transport_failure out \<Longrightarrow>
     (k \<noteq> K_testConnection \<longrightarrow>
        isConnected (resume k out s) = isConnected s \<and>
        statusText (resume k out s) = statusText s \<and>
        toasts (resume k out s) = toasts s @ [(''Connection failed'', ''error'')] \<and>
        fetched (resume k out s) = fetched s \<and>
        (isConnected s \<and> is_intent ev \<longrightarrow>
           (\<exists>r. fetched (step ev (resume k out s)) = fetched s @ [r] \<and> http_method r = ''POST''))) \<and>
     \<not> isConnected (resume K_testConnection out s) \<and>
     statusText (resume K_testConnection out s) = ''Disconnected''"
proof -
  assume tf: "transport_failure out"
  then have af: "api_failure out" by (rule transport_failure_api_failure)
  have probe: "\<not> isConnected (resume K_testConnection out s) \<and>
      statusText (resume K_testConnection out s) = ''Disconnected''"
    by (simp add: testConnection_failure [OF af] ui_defs)
  have other: "isConnected (resume k out s) = isConnected s \<and>
        statusText (resume k out s) = statusText s \<and>
        toasts (resume k out s) = toasts s @ [(''Connection failed'', ''error'')] \<and>
        fetched (resume k out s) = fetched s \<and>
        (isConnected s \<and> is_intent ev \<longrightarrow>
           (\<exists>r. fetched (step ev (resume k out s)) = fetched s @ [r] \<and> http_method r = ''POST''))"
    if k: "k \<noteq> K_testConnection"
  proof -
    from resume_failure [OF af k, of s]
    have fields: "isConnected (resume k out s) = isConnected s \<and>
        statusText (resume k out s) = statusText s \<and>
        toasts (resume k out s) = toasts s @ [(''Connection failed'', ''error'')] \<and>
        fetched (resume k out s) = fetched s"
      by (auto simp: ui_defs)
    have "\<exists>r. fetched (step ev (resume k out s)) = fetched s @ [r] \<and> http_method r = ''POST''"
      if "isConnected s" "is_intent ev"
      using intent_issues_post [of "resume k out s" ev] that fields by simp
    with fields show ?thesis by blast
  qed
  from probe other show ?thesis by blast
qed

theorem transport_failure_keeps_connection_witness:
  "transport_failure Rejected \<and> isConnected connected_page \<and>
   isConnected (resume (K_setPower (JStr ''on'')) Rejected connected_page) \<and>
   statusText (resume (K_setPower (JStr ''on'')) Rejected connected_page) = ''Connected'' \<and>
   \<not> isConnected (resume K_testConnection Rejected connected_page)"
  using transport_failure_keeps_connection
    [of Rejected "K_setPower (JStr ''on'')" connected_page "Call_sendRemoteKey (JStr ''UP'')"]
  by (simp add: connected_page_eq blank_page_def)

text \<open>
  Claim C1 as stated fails. After a fresh start with an answered probe, \<open>setPower\<close> is
  called and its call to \<open>/tv/power\<close> gets no response. The session is still connected,
  the status text still reads "Connected", and the next command, a remote key, goes to
  the network.
\<close>

theorem failed_command_stays_connected:
  "isConnected connected_page \<and> transport_failure Rejected \<and>
   isConnected (run [Call_setPower (JStr ''on''), Arrives 2 Rejected] connected_page) \<and>
   statusText (run [Call_setPower (JStr ''on''), Arrives 2 Rejected] connected_page) =
     ''Connected'' \<and>
   toasts (run [Call_setPower (JStr ''on''), Arrives 2 Rejected] connected_page) =
     [(''Connected to TV'', ''success''), (''Connection failed'', ''error'')] \<and>
   fetched (step (Call_sendRemoteKey (JStr ''UP''))
              (run [Call_setPower (JStr ''on''), Arrives 2 Rejected] connected_page)) =
     fetched (run [Call_setPower (JStr ''on''), Arrives 2 Rejected] connected_page) @
       [\<lparr>url = ''/tv/remote'', http_method = ''POST'',
         body = Some (JObj [(''key'', JStr ''UP'')])\<rparr>]"
  by (simp add: connected_page_eq blank_page_def api_call_def run_defs dispatch_defs
        resume_defs ui_defs)

subsection \<open>The network signals of the platform\<close>

text \<open>
  Claim C2, as the code has it. The offline signal shows the toast "No internet
  connection" and sets the status text to "Offline" and the dot off; it leaves
  \<open>isConnected\<close> as it was and makes no call. The online signal only shows the toast
  "Back online": status text, dot and \<open>isConnected\<close> stay as they were and no probe or
  other call is made. So after offline and then online the status text still reads
  "Offline", both toasts have been shown, and \<open>isConnected\<close> has the value it had
  before.
\<close>

theorem online_signal_only_toasts:
  "statusText (on_offline s) = ''Offline'' \<and> \<not> statusDot_connected (on_offline s) \<and>
   toasts (on_offline s) = toasts s @ [(''No internet connection'', ''error'')] \<and>
   isConnected (on_offline s) = isConnected s \<and>
   fetched (on_offline s) = fetched s \<and> pending (on_offline s) = pending s \<and>
   statusText (on_online t) = statusText t \<and>
   statusDot_connected (on_online t) = statusDot_connected t \<and>
   isConnected (on_online t) = isConnected t \<and>
   toasts (on_online t) = toasts t @ [(''Back online'', ''success'')] \<and>
   fetched (on_online t) = fetched t \<and> pending (on_online t) = pending t \<and>
   statusText (run [Offline, Online] s) = ''Offline'' \<and>
   \<not> statusDot_connected (run [Offline, Online] s) \<and>
   toasts (run [Offline, Online] s) =
     toasts s @ [(''No internet connection'', ''error''), (''Back online'', ''success'')] \<and>
   isConnected (run [Offline, Online] s) = isConnected s \<and>
   fetched (run [Offline, Online] s) = fetched s \<and>
   pending (run [Offline, Online] s) = pending s"
  by (simp add: run_def on_online_def on_offline_def ui_defs)

theorem online_signal_only_toasts_witness:
  "isConnected connected_page \<and>
   statusText (run [Offline, Online] connected_page) = ''Offline'' \<and>
   isConnected (run [Offline, Online] connected_page) \<and>
   toasts (run [Offline, Online] connected_page) =
     [(''Connected to TV'', ''success''), (''No internet connection'', ''error''),
      (''Back online'', ''success'')] \<and>
   pending (run [Offline, Online] connected_page) = pending connected_page"
  using online_signal_only_toasts [of connected_page connected_page]
  by (simp add: connected_page_eq blank_page_def)

text \<open>
  Claim C2 as stated fails. A connected session receives the offline signal and then the
  online signal: the status text reads "Offline", not "Connecting...", no probe was
  issued, and \<open>isConnected\<close> is still true.
\<close>

theorem online_signal_no_reconnect:
  "statusText (run [Offline, Online] connected_page) = ''Offline'' \<and>
   statusText (run [Offline, Online] connected_page) \<noteq> ''Connecting...'' \<and>
   isConnected (run [Offline, Online] connected_page) \<and>
   fetched (run [Offline, Online] connected_page) = fetched connected_page"
  by (simp add: connected_page_eq blank_page_def api_call_def run_def on_online_def
        on_offline_def ui_defs)

subsection \<open>Startup\<close>

lemma updateStatusDisplay_keeps:
  "isConnected (updateStatusDisplay info s) = isConnected s \<and>
   statusText (updateStatusDisplay info s) = statusText s \<and>
   fetched (updateStatusDisplay info s) = fetched s \<and>
   pending (updateStatusDisplay info s) = pending s"
  by (simp add: updateStatusDisplay_def Let_def split: option.splits)

lemma poll_resume_keeps:
  "k = K_refreshStatus \<or> k = K_loadApps \<Longrightarrow>
     isConnected (resume k out s) = isConnected s \<and>
     statusText (resume k out s) = statusText s \<and>
     fetched (resume k out s) = fetched s \<and>
     pending (resume k out s) = pending s"
proof -
  obtain j s' where r: "makeApiRequest_resume out s = (Inr j, s')"
    and s': "s' = s \<or> s' = showToast ''Connection failed'' ''error'' s"
    using makeApiRequest_resume_shape by blast
  from s' have keep: "isConnected s' = isConnected s \<and> statusText s' = statusText s \<and>
      fetched s' = fetched s \<and> pending s' = pending s"
    by (auto simp: showToast_def)
  assume "k = K_refreshStatus \<or> k = K_loadApps"
  then show ?thesis
  proof
    assume "k = K_refreshStatus"
    then show ?thesis
      using keep by (simp add: refreshStatus_resume_def r updateStatusDisplay_keeps)
  next
    assume "k = K_loadApps"
    then show ?thesis
      using keep by (simp add: loadApps_resume_def r split: option.splits json.splits)
  qed
qed

lemma deliver_poll_keeps:
  assumes "only_polls s"
  shows "isConnected (deliver i out s) = isConnected s \<and>
     statusText (deliver i out s) = statusText s \<and>
     fetched (deliver i out s) = fetched s \<and>
     only_polls (deliver i out s)"
proof (cases "i < length (pending s)")
  case False
  with assms show ?thesis by (simp add: deliver_def)
next
  case True
  let ?k = "snd (pending s ! i)"
  let ?s = "s\<lparr>pending := take i (pending s) @ drop (Suc i) (pending s)\<rparr>"
  from True have "pending s ! i \<in> set (pending s)" by simp
  with assms have k: "?k = K_refreshStatus \<or> ?k = K_loadApps"
    by (fastforce simp: only_polls_def list_all_iff)
  have rest: "only_polls ?s"
    using assms
    by (auto simp: only_polls_def list_all_iff dest: in_set_takeD in_set_dropD)
  from poll_resume_keeps [OF k, of out ?s] rest True show ?thesis
    by (simp add: deliver_def only_polls_def)
qed

text \<open>
  Claim C6, as the code has it. A fresh start shows "Connecting..." and makes one call,
  the GET of \<open>/health\<close>. When the probe resolves to a truthy value (a 2xx response whose
  body is JSON and truthy), the state becomes Connected and \<open>/tv/info\<close> and \<open>/tv/apps\<close>
  are each requested once, both in flight together. Whatever these two calls end in, in
  whichever order, the state stays Connected and no further call is made: neither is
  retried. When the probe does not resolve to a truthy value, the state becomes
  Disconnected and nothing more is requested.
\<close>

theorem startup_probe:
  assumes "s0 = new_VizioTVController stored page" and "s1 = deliver 0 out s0"
  shows "statusText s0 = ''Connecting...'' \<and> \<not> isConnected s0 \<and>
     fetched s0 = [api_call s0 ''/health'' ''GET'' None] \<and>
     pending s0 = [(api_call s0 ''/health'' ''GET'' None, K_testConnection)] \<and>
     (truthy_result out \<longrightarrow>
        isConnected s1 \<and> statusText s1 = ''Connected'' \<and>
        fetched s1 = [api_call s0 ''/health'' ''GET'' None, api_call s0 ''/tv/info'' ''GET'' None,
                      api_call s0 ''/tv/apps'' ''GET'' None] \<and>
        pending s1 = [(api_call s0 ''/tv/info'' ''GET'' None, K_refreshStatus),
                      (api_call s0 ''/tv/apps'' ''GET'' None, K_loadApps)] \<and>
        isConnected (run [Arrives i o1, Arrives j o2] s1) \<and>
        statusText (run [Arrives i o1, Arrives j o2] s1) = ''Connected'' \<and>
        fetched (run [Arrives i o1, Arrives j o2] s1) = fetched s1) \<and>
     (\<not> truthy_result out \<longrightarrow>
        \<not> isConnected s1 \<and> statusText s1 = ''Disconnected'' \<and>
        fetched s1 = [api_call s0 ''/health'' ''GET'' None] \<and> pending s1 = [])"
proof -
  have start: "statusText s0 = ''Connecting...'' \<and> \<not> isConnected s0 \<and>
     fetched s0 = [api_call s0 ''/health'' ''GET'' None] \<and>
     pending s0 = [(api_call s0 ''/health'' ''GET'' None, K_testConnection)]"
    by (simp add: assms(1) new_VizioTVController_def testConnection_def makeApiRequest_def
          api_call_def ui_defs Let_def)
  have s1: "s1 = testConnection_resume out (s0\<lparr>pending := []\<rparr>)"
    using start by (simp add: assms(2) deliver_def)
  have good: "isConnected s1 \<and> statusText s1 = ''Connected'' \<and>
        fetched s1 = [api_call s0 ''/health'' ''GET'' None, api_call s0 ''/tv/info'' ''GET'' None,
                      api_call s0 ''/tv/apps'' ''GET'' None] \<and>
        pending s1 = [(api_call s0 ''/tv/info'' ''GET'' None, K_refreshStatus),
                      (api_call s0 ''/tv/apps'' ''GET'' None, K_loadApps)]"
    if "truthy_result out"
    using that start
    by (cases out)
       (auto simp: s1 truthy_result_def testConnection_resume_def makeApiRequest_resume_def
          refreshStatus_def loadApps_def makeApiRequest_def api_call_def ui_defs Let_def
          split: option.splits if_splits)
  have later: "isConnected (run [Arrives i o1, Arrives j o2] s1) \<and>
        statusText (run [Arrives i o1, Arrives j o2] s1) = ''Connected'' \<and>
        fetched (run [Arrives i o1, Arrives j o2] s1) = fetched s1"
    if t: "truthy_result out"
  proof -
    from good [OF t] have p: "only_polls s1" by (simp add: only_polls_def)
    from deliver_poll_keeps [OF p, of i o1]
    have a: "isConnected (deliver i o1 s1) = isConnected s1"
      "statusText (deliver i o1 s1) = statusText s1"
      "fetched (deliver i o1 s1) = fetched s1" "only_polls (deliver i o1 s1)"
      by simp_all
    from deliver_poll_keeps [OF a(4), of j o2] a good [OF t]
    show ?thesis by (simp add: run_def)
  qed
  have bad: "\<not> isConnected s1 \<and> statusText s1 = ''Disconnected'' \<and>
        fetched s1 = [api_call s0 ''/health'' ''GET'' None] \<and> pending s1 = []"
    if "\<not> truthy_result out"
    using that start
    by (cases out)
       (auto simp: s1 truthy_result_def testConnection_resume_def makeApiRequest_resume_def
          ui_defs Let_def split: option.splits if_splits)
  from start good later bad show ?thesis by blast
qed

theorem startup_probe_witness:
  "truthy_result health_ok \<and> isConnected connected_page \<and>
   statusText connected_page = ''Connected'' \<and>
   fetched (run [Arrives 1 Rejected, Arrives 0 Rejected] connected_page) =
     fetched connected_page \<and>
   \<not> truthy_result Rejected \<and>
   \<not> isConnected (deliver 0 Rejected (new_VizioTVController None blank_page))"
  using startup_probe [OF refl connected_page_def, of 1 Rejected 0 Rejected]
    startup_probe [OF refl refl, of None blank_page Rejected]
  by (simp add: health_ok_def truthy_result_def ok_def)

text \<open>
  Claim C6 as stated fails. After a fresh start with an answered probe the status poll
  gets no response: \<open>/tv/info\<close> has been requested once and is not requested again, and
  only the apps-list fetch is left in flight. And a probe answered with 204 and no body,
  a 2xx response, ends in Disconnected.
\<close>

theorem startup_poll_not_retried:
  "truthy_result health_ok \<and> transport_failure Rejected \<and>
   fetched (run [Arrives 0 health_ok, Arrives 0 Rejected] (new_VizioTVController None blank_page)) =
     [\<lparr>url = ''/health'', http_method = ''GET'', body = None\<rparr>,
      \<lparr>url = ''/tv/info'', http_method = ''GET'', body = None\<rparr>,
      \<lparr>url = ''/tv/apps'', http_method = ''GET'', body = None\<rparr>] \<and>
   pending (run [Arrives 0 health_ok, Arrives 0 Rejected] (new_VizioTVController None blank_page)) =
     [(\<lparr>url = ''/tv/apps'', http_method = ''GET'', body = None\<rparr>, K_loadApps)] \<and>
   ok 204 \<and>
   \<not> isConnected (run [Arrives 0 (Response 204 None)] (new_VizioTVController None blank_page)) \<and>
   statusText (run [Arrives 0 (Response 204 None)] (new_VizioTVController None blank_page)) =
     ''Disconnected''"
  by (simp add: health_ok_def truthy_result_def blank_page_def run_defs resume_defs ui_defs)

subsection \<open>The status display\<close>

text \<open>
  Claim C10. When the status snapshot has no \<open>volume\<close> field, the volume status text
  becomes "0%" and the volume slider and its percentage label keep their values; when
  the field is 0, the text and the label show "0%" and the slider is set to "0".
\<close>

theorem volume_display:
  "(js_get info ''volume'' = None \<longrightarrow>
      volumeStatus (updateStatusDisplay info s) = ''0%'' \<and>
      volumeSlider_value (updateStatusDisplay info s) = volumeSlider_value s \<and>
      volumeValue (updateStatusDisplay info s) = volumeValue s) \<and>
   (js_get info ''volume'' = Some (JNum 0) \<longrightarrow>
      volumeStatus (updateStatusDisplay info s) = ''0%'' \<and>
      volumeSlider_value (updateStatusDisplay info s) = ''0'' \<and>
      volumeValue (updateStatusDisplay info s) = ''0%'')"
  by (simp add: updateStatusDisplay_def or_else_def show_int_def digits.simps)

theorem volume_display_witness:
  "js_get (JObj [(''power'', JStr ''on'')]) ''volume'' = None \<and>
   volumeStatus (updateStatusDisplay (JObj [(''power'', JStr ''on'')]) blank_page) = ''0%'' \<and>
   volumeSlider_value (updateStatusDisplay (JObj [(''power'', JStr ''on'')]) blank_page) = ''50'' \<and>
   volumeValue (updateStatusDisplay (JObj [(''power'', JStr ''on'')]) blank_page) = ''50%'' \<and>
   js_get (JObj [(''volume'', JNum 0)]) ''volume'' = Some (JNum 0) \<and>
   volumeSlider_value (updateStatusDisplay (JObj [(''volume'', JNum 0)]) blank_page) = ''0''"
  using volume_display [of "JObj [(''power'', JStr ''on'')]" blank_page]
    volume_display [of "JObj [(''volume'', JNum 0)]" blank_page]
  by (simp add: blank_page_def)

section \<open>Properties of the service worker\<close>

subsection \<open>Only static assets are stored\<close>

lemma static_only_iff:
  "static_only self storage = (\<forall>(name, c) \<in> set storage. \<forall>(k, r) \<in> set c. static_entry self k)"
  by (auto simp: static_only_def static_entry_def list_all_iff)

lemma fetch_all_keys: "fetch_all net ks = Some es \<Longrightarrow> map fst es = ks"
  by (induction ks arbitrary: es)
     (auto split: net_result.splits if_splits option.splits)

lemma cache_put_static:
  "static_entry self k \<Longrightarrow> \<forall>(k', r') \<in> set c. static_entry self k' \<Longrightarrow>
     \<forall>(k', r') \<in> set (cache_put k r c). static_entry self k'"
  by (auto simp: cache_put_def)

lemma fold_put_static:
  "\<forall>(k, r) \<in> set es. static_entry self k \<Longrightarrow> \<forall>(k, r) \<in> set c. static_entry self k \<Longrightarrow>
     \<forall>(k, r) \<in> set (fold (\<lambda>(k, r). cache_put k r) es c). static_entry self k"
proof (induction es arbitrary: c)
  case Nil
  then show ?case by simp
next
  case (Cons e es)
  obtain k r where e: "e = (k, r)" by (cases e)
  from Cons.prems have "\<forall>(k', r') \<in> set (cache_put k r c). static_entry self k'"
    by (intro cache_put_static) (auto simp: e)
  with Cons.IH [of "cache_put k r c"] Cons.prems(1) show ?case
    by (simp add: e)
qed

lemma cache_of_static:
  "static_only self storage \<Longrightarrow> \<forall>(k, r) \<in> set (cache_of name storage). static_entry self k"
proof (cases "map_of storage name")
  case None
  then show ?thesis by (simp add: cache_of_def)
next
  case (Some c)
  then have "(name, c) \<in> set storage" by (rule map_of_SomeD)
  moreover assume "static_only self storage"
  ultimately have "\<forall>(k, r) \<in> set c. static_entry self k"
    unfolding static_only_iff by blast
  with Some show ?thesis by (simp add: cache_of_def)
qed

lemma caches_open_static:
  "static_only self storage \<Longrightarrow> static_only self (caches_open name storage)"
  by (auto simp: caches_open_def static_only_iff)

lemma addAll_static:
  assumes "cache_addAll net self urlsToCache c = Inr c'"
    and "\<forall>(k, r) \<in> set c. static_entry self k"
  shows "\<forall>(k, r) \<in> set c'. static_entry self k"
proof -
  let ?ks = "map (\<lambda>p. \<lparr>origin = self, pathname = p, search = []\<rparr>) urlsToCache"
  from assms(1) obtain es where es: "fetch_all net ?ks = Some es"
    and c': "c' = fold (\<lambda>(k, r). cache_put k r) es c"
    by (auto simp: cache_addAll_def split: option.splits)
  have "static_entry self k" if "(k, r) \<in> set es" for k r
  proof -
    from that have "k \<in> set (map fst es)" by force
    then have "k \<in> set ?ks" by (simp only: fetch_all_keys [OF es])
    then obtain p where "p \<in> set urlsToCache"
      and "k = \<lparr>origin = self, pathname = p, search = []\<rparr>"
      by auto
    then show ?thesis by (simp add: static_entry_def)
  qed
  then have "\<forall>(k, r) \<in> set es. static_entry self k" by blast
  from fold_put_static [OF this assms(2)] show ?thesis by (simp add: c')
qed

lemma on_install_static:
  assumes "static_only self storage"
  shows "static_only self (snd (on_install net self storage))"
proof -
  let ?st = "caches_open CACHE_NAME storage"
  from assms have st: "static_only self ?st" by (rule caches_open_static)
  show ?thesis
  proof (cases "cache_addAll net self urlsToCache (cache_of CACHE_NAME ?st)")
    case (Inl e)
    with st show ?thesis by (simp add: on_install_def)
  next
    case (Inr c')
    from addAll_static [OF Inr cache_of_static [OF st]]
    have c': "\<forall>(k, r) \<in> set c'. static_entry self k" .
    have "\<forall>(k, r) \<in> set c. static_entry self k"
      if "(name, c) \<in> set (map (\<lambda>(name, old). if name = CACHE_NAME then (name, c') else (name, old)) ?st)"
      for name c
    proof -
      from that obtain old where old: "(name, old) \<in> set ?st"
        and c: "c = (if name = CACHE_NAME then c' else old)"
        by (auto split: if_splits)
      from st old have "\<forall>(k, r) \<in> set old. static_entry self k"
        unfolding static_only_iff by blast
      with c' c show ?thesis by (cases "name = CACHE_NAME") simp_all
    qed
    then have "static_only self
        (map (\<lambda>(name, old). if name = CACHE_NAME then (name, c') else (name, old)) ?st)"
      unfolding static_only_iff by blast
    with Inr show ?thesis by (simp add: on_install_def)
  qed
qed

lemma on_fetch_storage: "snd (snd (on_fetch net storage req)) = storage"
  by (simp add: on_fetch_def split: net_result.splits option.splits)

lemma on_activate_static:
  "static_only self storage \<Longrightarrow> static_only self (on_activate storage)"
  by (auto simp: on_activate_def static_only_iff)

lemma sw_step_static:
  "static_only self storage \<Longrightarrow> static_only self (sw_step self ev storage)"
  by (cases ev) (simp_all add: on_install_static on_fetch_storage on_activate_static)

lemma sw_run_static:
  "static_only self storage \<Longrightarrow> static_only self (sw_run self evs storage)"
  unfolding sw_run_def
  by (induction evs arbitrary: storage) (simp_all add: sw_step_static)

lemma caches_match_post: "rq_method req \<noteq> ''GET'' \<Longrightarrow> caches_match storage req = None"
  by (induction storage req rule: caches_match.induct) (simp_all add: cache_match_def)

lemma caches_match_stored:
  "caches_match storage req = Some r \<Longrightarrow> rq_url req \<in> set (stored_urls storage)"
  by (induction storage req rule: caches_match.induct)
     (auto simp: cache_match_def stored_urls_def split: option.splits if_splits dest!: map_of_SomeD
        intro: rev_image_eqI)

lemma api_not_static: "isApi u \<Longrightarrow> pathname u \<notin> set urlsToCache"
  by (auto simp: isApi_def startsWith_def urlsToCache_def)

lemma static_only_stored:
  "static_only self storage \<Longrightarrow> u \<in> set (stored_urls storage) \<Longrightarrow> pathname u \<in> set urlsToCache"
  by (fastforce simp: static_only_iff stored_urls_def static_entry_def)

lemma fetch_all_example:
  "fetch_all example_net ks = Some (map (\<lambda>k. (k, \<lparr>status = 200, payload = pathname k\<rparr>)) ks)"
  by (induction ks) (simp_all add: example_net_def ok_def)

lemma example_storage_eq:
  "example_storage =
     [(CACHE_NAME, map (\<lambda>p. (\<lparr>origin = ''https://tv.local'', pathname = p, search = []\<rparr>,
                             \<lparr>status = 200, payload = p\<rparr>)) urlsToCache)]"
  by (simp add: example_storage_def sw_run_def on_install_def caches_open_def cache_addAll_def
        fetch_all_example cache_of_def on_activate_def)
     (simp add: urlsToCache_def cache_put_def)

text \<open>
  Claim C8. Whatever listeners of the worker run, in whatever order and on whatever
  network, a cache storage that holds only static assets of the worker's origin keeps
  holding only those (the empty storage of a fresh origin is such a storage). So no
  cache of any name holds an entry under the URL of an API request, and a lookup for a
  command, which is a POST, or for any API request finds nothing.
\<close>

theorem commands_never_cached:
  "static_only self storage \<Longrightarrow>
     static_only self (sw_run self evs storage) \<and>
     (rq_method req = ''POST'' \<longrightarrow> caches_match (sw_run self evs storage) req = None) \<and>
     (isApi (rq_url req) \<longrightarrow>
        rq_url req \<notin> set (stored_urls (sw_run self evs storage)) \<and>
        caches_match (sw_run self evs storage) req = None)"
proof -
  assume "static_only self storage"
  then have inv: "static_only self (sw_run self evs storage)" by (rule sw_run_static)
  have post: "caches_match (sw_run self evs storage) req = None" if "rq_method req = ''POST''"
    using that by (simp add: caches_match_post)
  have api: "rq_url req \<notin> set (stored_urls (sw_run self evs storage))" if "isApi (rq_url req)"
    using static_only_stored [OF inv] api_not_static [OF that] by blast
  then have "caches_match (sw_run self evs storage) req = None" if "isApi (rq_url req)"
    using that caches_match_stored [of "sw_run self evs storage" req]
    by (cases "caches_match (sw_run self evs storage) req") auto
  with inv post api show ?thesis by blast
qed

theorem commands_never_cached_witness:
  "static_only ''https://tv.local'' [] \<and> static_only ''https://tv.local'' example_storage \<and>
   length (stored_urls example_storage) = 5 \<and>
   rq_method power_request = ''POST'' \<and> isApi (rq_url power_request) \<and>
   rq_url power_request \<notin> set (stored_urls example_storage) \<and>
   caches_match example_storage power_request = None"
  using commands_never_cached
    [of "''https://tv.local''" "[]" "[Install example_net, Activate]" power_request]
  by (simp add: static_only_def example_storage_def [symmetric] power_request_def isApi_def
        startsWith_def)
     (simp add: example_storage_eq stored_urls_def urlsToCache_def)

subsection \<open>The two strategies of the fetch listener\<close>






text \<open>
  Claim C3, as the code has it. For a request outside the API paths the worker returns
  the cached entry when there is one, without any network call; otherwise it makes
  exactly one network call and hands its outcome to the page. In both cases the cache
  storage is left as it was: the fetch listener never writes to a cache.
\<close>

theorem cache_first_no_population:
  "\<not> isApi (rq_url req) \<Longrightarrow>
     (\<forall>cached. caches_match storage req = Some cached \<longrightarrow>
        on_fetch net storage req = (Resolved cached, [], storage)) \<and>
     (caches_match storage req = None \<longrightarrow>
        on_fetch net storage req = (net req, [req], storage))"
  by (auto simp: on_fetch_def)

theorem cache_first_no_population_witness:
  "\<not> isApi (rq_url index_request) \<and>
   caches_match example_storage index_request = Some \<lparr>status = 200, payload = ''/index.html''\<rparr> \<and>
   on_fetch offline_net example_storage index_request =
     (Resolved \<lparr>status = 200, payload = ''/index.html''\<rparr>, [], example_storage)"
  using cache_first_no_population [of index_request example_storage offline_net]
  by (simp add: index_request_def isApi_def startsWith_def cache_match_def example_storage_eq
        urlsToCache_def)

text \<open>
  Claim C3 as stated fails. After install and activation an icon that is not among the
  static assets is requested: the cache has no entry, the network is asked once and
  answers, and afterwards the cache still has no entry for the icon.
\<close>

theorem static_miss_not_cached:
  "\<not> isApi (rq_url logo_request) \<and> caches_match example_storage logo_request = None \<and>
   on_fetch example_net example_storage logo_request =
     (Resolved \<lparr>status = 200, payload = ''/icon-192.png''\<rparr>, [logo_request], example_storage) \<and>
   caches_match (snd (snd (on_fetch example_net example_storage logo_request))) logo_request = None"
  by (simp add: example_storage_eq logo_request_def on_fetch_def isApi_def startsWith_def
        cache_match_def urlsToCache_def example_net_def)

end
